theory Spec2Isabelle
  imports Complex_Main
begin

section \<open>Data model\<close>

text \<open>
  A rectangle is four integers. The classifier reports \<open>(x, y, width, height)\<close>;
  \<open>detect_pattern\<close> turns it into the corner pair \<open>(x1, y1, x2, y2)\<close>. A colour is a
  BGR triple. A frame is a grid of pixels, stored as the list of its rows; the pixel type
  is left open.

  The classifier's rectangles are rows of an array of signed 32-bit integers, and so
  are the numbers the detectors take from it: every sum of two of them is a 32-bit sum,
  which wraps around. Coordinates are integers, those of a classifier's answer of the
  32-bit range, and \<open>int32\<close> is written around each such sum; it leaves a number of
  the 32-bit range, for which \<open>fits_int32\<close> holds, as it is.
\<close>

type_synonym rect = "int \<times> int \<times> int \<times> int"
type_synonym color = "int \<times> int \<times> int"
type_synonym 'p image = "'p list list"

definition int32 :: "int \<Rightarrow> int" where
  "int32 v = (v + 2147483648) mod 4294967296 - 2147483648"

definition fits_int32 :: "int \<Rightarrow> bool" where
  "fits_int32 v = (- 2147483648 \<le> v \<and> v < 2147483648)"

text \<open>
  The two external capabilities of the vision library that the detectors call:
  \<open>cascade.detectMultiScale(img, scaleFactor, minNeighbors, flags, minSize)\<close>, a black box
  from an image to candidate rectangles, and
  \<open>cv2.rectangle(img, pt1, pt2, color, thickness)\<close>, which draws on the image. Drawing
  mutates the array in place; the detectors rebind their \<open>frame\<close> variable to that same
  array, so the frame is threaded through as a value.
\<close>

type_synonym 'p cascade = "'p image \<Rightarrow> real \<Rightarrow> int \<Rightarrow> int \<Rightarrow> int \<times> int \<Rightarrow> rect list"
type_synonym 'p draw = "'p image \<Rightarrow> int \<times> int \<Rightarrow> int \<times> int \<Rightarrow> color \<Rightarrow> int \<Rightarrow> 'p image"

section \<open>imgutils\<close>

text \<open>
  \<open>detect_pattern\<close>: the classifier's answer with \<open>rects[:, 2:] += rects[:, :2]\<close>
  applied, which adds columns 0 and 1 of every row to its columns 2 and 3, in place and
  in 32 bits.
\<close>

definition detect_pattern :: "'p image \<Rightarrow> 'p cascade \<Rightarrow> int \<times> int \<Rightarrow> rect list \<times> 'p image" where
  "detect_pattern img cascade min_rectangle =
     (let rects = cascade img (12 / 10) 3 1 min_rectangle in
      if length rects = 0 then ([], img)
      else (map (\<lambda>(x, y, w, h). (x, y, int32 (w + x), int32 (h + y))) rects, img))"

text \<open>
  \<open>box\<close>: one \<open>cv2.rectangle\<close> call of thickness 2 per coordinate row, in order. The
  drawing capability is the argument \<open>cv2_rectangle\<close>.
\<close>

fun box :: "'p draw \<Rightarrow> rect list \<Rightarrow> 'p image \<Rightarrow> color \<Rightarrow> 'p image" where
  "box cv2_rectangle [] img color = img"
| "box cv2_rectangle ((x1, y1, x2, y2) # coords) img color =
     box cv2_rectangle coords (cv2_rectangle img (x1, y1) (x2, y2) color 2) color"

text \<open>
  Python slicing \<open>xs[lo:hi]\<close>: a negative bound counts from the end, and every bound is
  clamped to the length, so a slice never fails. \<open>slice2 img r0 r1 c0 c1\<close> is the
  two-dimensional \<open>img[r0:r1, c0:c1]\<close>, which \<open>double_cascade\<close> takes of its frame and
  which \<open>crop\<close> returns.
\<close>

definition slice_bound :: "nat \<Rightarrow> int \<Rightarrow> nat" where
  "slice_bound n i = (if i < 0 then nat (max 0 (int n + i)) else min n (nat i))"

definition py_slice :: "'a list \<Rightarrow> int \<Rightarrow> int \<Rightarrow> 'a list" where
  "py_slice xs lo hi =
     (let start = slice_bound (length xs) lo; stop = slice_bound (length xs) hi
      in take (stop - start) (drop start xs))"

definition slice2 :: "'p image \<Rightarrow> int \<Rightarrow> int \<Rightarrow> int \<Rightarrow> int \<Rightarrow> 'p image" where
  "slice2 img r0 r1 c0 c1 = map (\<lambda>row. py_slice row c0 c1) (py_slice img r0 r1)"

definition crop :: "'p image \<Rightarrow> int \<Rightarrow> int \<Rightarrow> int \<Rightarrow> int \<Rightarrow> 'p image" where
  "crop img startx endx starty endy = slice2 img starty endy startx endx"

section \<open>detect\<close>

text \<open>
  The inner loop of \<open>double_cascade\<close> (lines 51 to 61): every face rectangle of the
  current upper body is shifted by that upper body's origin and drawn in red. The
  four sums of lines 53 to 56, like those of line 67, are sums of 32-bit numbers. The
  source's \<open>wf\<close> is written \<open>wf'\<close> here.
\<close>

fun draw_faces :: "'p draw \<Rightarrow> int \<Rightarrow> int \<Rightarrow> rect list \<Rightarrow> 'p image \<Rightarrow> 'p image" where
  "draw_faces cv2_rectangle x y [] frame = frame"
| "draw_faces cv2_rectangle x y ((xf, yf, wf', hf) # rects_face) frame =
     draw_faces cv2_rectangle x y rects_face
       (box cv2_rectangle
          [(int32 (xf + x), int32 (yf + y), int32 (wf' + x), int32 (hf + y))]
          frame (0, 0, 255))"

text \<open>
  The outer loop (lines 46 to 61) over the upper bodies. Its state is the frame and the
  variable \<open>rects_face\<close>, which every iteration assigns anew. \<open>frame_crop\<close> is a view of
  the frame; it is read by the classifier before anything else is drawn.
\<close>

fun search_faces ::
  "'p draw \<Rightarrow> 'p cascade \<Rightarrow> rect list \<Rightarrow> 'p image \<times> rect list \<Rightarrow> 'p image \<times> rect list" where
  "search_faces cv2_rectangle cascade_face [] (frame, rects_face) = (frame, rects_face)"
| "search_faces cv2_rectangle cascade_face ((x, y, w, h) # rects_upperbody) (frame, rects_face) =
     (let frame_crop = slice2 frame y h x w;
          rects_face' = fst (detect_pattern frame_crop cascade_face (25, 25))
      in search_faces cv2_rectangle cascade_face rects_upperbody
           (draw_faces cv2_rectangle x y rects_face' frame, rects_face'))"

text \<open>
  \<open>double_cascade\<close> returns a pair or, with \<open>return_faces\<close>, a triple; the third
  component is \<open>None\<close> for the pair.
\<close>

definition double_cascade ::
  "'p draw \<Rightarrow> 'p image \<Rightarrow> bool \<Rightarrow> 'p cascade \<Rightarrow> 'p cascade \<Rightarrow> 'p image \<times> bool \<times> rect list option" where
  "double_cascade cv2_rectangle frame0 return_faces cascade_upperbody cascade_face =
     (let (rects_upperbody, frame1) = detect_pattern frame0 cascade_upperbody (60, 60);
          frame2 = box cv2_rectangle rects_upperbody frame1 (0, 255, 0);
          (frame, rects_face) =
            (if length rects_upperbody > 0
             then search_faces cv2_rectangle cascade_face rects_upperbody (frame2, [])
             else (frame2, []));
          found = (length rects_face > 0)
      in if return_faces
         then (frame, found,
               Some [(int32 (xf + x), int32 (yf + y), int32 (wf' + x), int32 (hf + y)).
                       (xf, yf, wf', hf) \<leftarrow> rects_face, (x, y, w, h) \<leftarrow> rects_upperbody])
         else (frame, found, None))"

text \<open>
  \<open>motion_detection\<close> copies its frame and then draws on the frame in place, so the two
  arrays it returns are distinct objects. Arrays live in a store, a list of images
  indexed by reference; \<open>frame.copy()\<close> allocates a new cell, \<open>cv2.rectangle\<close>
  overwrites the cell of its argument. The other image operations return new arrays
  that no result refers to; they are values.
\<close>

type_synonym ref = nat
type_synonym 'p store = "'p image list"

definition ndarray_copy :: "'p store \<Rightarrow> ref \<Rightarrow> 'p store \<times> ref" where
  "ndarray_copy mem a = (mem @ [mem ! a], length mem)"

text \<open>
  The image-processing capabilities \<open>motion_detection\<close> uses, with the fixed arguments of
  the source left out: \<open>cvtColor\<close> is called with \<open>COLOR_BGR2GRAY\<close>, \<open>threshold\<close> with
  \<open>THRESH_BINARY\<close> (its second result), \<open>findContours\<close> with \<open>RETR_EXTERNAL\<close> and
  \<open>CHAIN_APPROX_SIMPLE\<close> (its list of contours). \<open>'g\<close> is the type of grayscale images,
  \<open>'c\<close> the type of contours.
\<close>

record ('p, 'g, 'c) cv2 =
  cvtColor :: "'p image \<Rightarrow> 'g"
  GaussianBlur :: "'g \<Rightarrow> int \<times> int \<Rightarrow> int \<Rightarrow> 'g"
  absdiff :: "'g \<Rightarrow> 'g \<Rightarrow> 'g"
  threshold :: "'g \<Rightarrow> int \<Rightarrow> int \<Rightarrow> 'g"
  dilate :: "'g \<Rightarrow> int \<Rightarrow> 'g"
  findContours :: "'g \<Rightarrow> 'c list"
  contourArea :: "'c \<Rightarrow> real"
  boundingRect :: "'c \<Rightarrow> rect"
  rectangle :: "'p draw"

text \<open>Lines 78 to 94: from the two frames to the contours of the dilated difference mask.\<close>

definition motion_contours :: "('p, 'g, 'c) cv2 \<Rightarrow> 'p image \<Rightarrow> 'p image \<Rightarrow> int \<Rightarrow> int \<Rightarrow> 'c list" where
  "motion_contours cv frame first_frame thresh it =
     (let first_frame = cvtColor cv first_frame;
          first_frame = GaussianBlur cv first_frame (21, 21) 0;
          gray = cvtColor cv frame;
          gray = GaussianBlur cv gray (21, 21) 0;
          frameDelta = absdiff cv first_frame gray;
          thresh = threshold cv frameDelta thresh 255;
          thresh = dilate cv thresh it
      in findContours cv thresh)"

text \<open>
  Lines 97 to 106: the loop over the contours. Its state is the store, where the array
  \<open>frame\<close> is drawn on, and the flag \<open>found\<close>. Both \<open>continue\<close> statements go on with the
  state unchanged.
\<close>

fun mark_contours ::
  "('p, 'g, 'c) cv2 \<Rightarrow> ref \<Rightarrow> int \<Rightarrow> int \<Rightarrow> 'c list \<Rightarrow> 'p store \<times> bool \<Rightarrow> 'p store \<times> bool" where
  "mark_contours cv frame min_area max_area [] (mem, found) = (mem, found)"
| "mark_contours cv frame min_area max_area (c # cnts) (mem, found) =
     (if contourArea cv c < real_of_int min_area
      then mark_contours cv frame min_area max_area cnts (mem, found)
      else (case boundingRect cv c of (x, y, w, h) \<Rightarrow>
        if w * h > max_area
        then mark_contours cv frame min_area max_area cnts (mem, found)
        else mark_contours cv frame min_area max_area cnts
               (mem[frame := rectangle cv (mem ! frame) (x, y) (x + w, y + h) (0, 255, 0) 2],
                True)))"

text \<open>
  \<open>motion_detection\<close> takes the store and the references of its two frames, and returns
  the store with the references of \<open>frame\<close> and \<open>raw_frame\<close> and the flag.
\<close>

definition motion_detection ::
  "('p, 'g, 'c) cv2 \<Rightarrow> 'p store \<Rightarrow> ref \<Rightarrow> ref \<Rightarrow> int \<Rightarrow> int \<Rightarrow> int \<Rightarrow> int
     \<Rightarrow> 'p store \<times> ref \<times> ref \<times> bool" where
  "motion_detection cv mem frame first_frame thresh it min_area max_area =
     (let found = False;
          (mem, raw_frame) = ndarray_copy mem frame;
          cnts = motion_contours cv (mem ! frame) (mem ! first_frame) thresh it;
          (mem, found) = mark_contours cv frame min_area max_area cnts (mem, found)
      in (mem, frame, raw_frame, found))"

section \<open>soundcat\<close>

text \<open>
  The exceptions \<open>play\<close> can end with: \<open>KeyError\<close> from the dictionary,
  \<open>ZeroDivisionError\<close> from \<open>1/self.pps\<close>, \<open>ValueError\<close>, which \<open>random.randrange\<close>
  raises on an empty range, the errors of the operating system that \<open>os.listdir\<close>
  raises, and \<open>pygame_error\<close>, which the audio library raises.
\<close>

datatype py_error =
  KeyError | ZeroDivisionError | ValueError
  | OSError | FileNotFoundError | NotADirectoryError | PermissionError
  | pygame_error

text \<open>
  The fields of a \<open>Soundcat\<close> object. \<open>pps\<close> and the clock readings are
  double-precision numbers; each is the real number it stands for.
\<close>

record soundcat =
  categories :: "string \<rightharpoonup> string"
  pps :: real
  last_play_time :: real

text \<open>
  What \<open>play\<close> meets outside the object. \<open>to_double\<close> is the rounding of double-precision
  arithmetic: the difference and the quotient of line 120 are the exact ones, rounded
  to a double. Where Python's quotient is infinite, \<open>to_double\<close> is some number above
  every difference of clock readings. \<open>listdir\<close> is \<open>os.listdir\<close> on the file system,
  with the error it raises where it raises one. \<open>mixer_Sound\<close> is
  \<open>pygame.mixer.Sound\<close>, which loads a sample or raises, and \<open>Sound_play\<close> is the
  \<open>play\<close> method of the loaded sample.
\<close>

record 's surroundings =
  to_double :: "real \<Rightarrow> real"
  listdir :: "string \<Rightarrow> py_error + string list"
  mixer_Sound :: "string \<Rightarrow> py_error + 's"
  Sound_play :: "'s \<Rightarrow> py_error + unit"

text \<open>\<open>__init__\<close>; \<open>now\<close> is what \<open>time.time()\<close> returns at line 63.\<close>

definition soundcat_init :: "real \<Rightarrow> real \<Rightarrow> soundcat" where
  "soundcat_init pps0 now = \<lparr>categories = Map.empty, pps = pps0, last_play_time = now\<rparr>"

definition add_category :: "soundcat \<Rightarrow> string \<Rightarrow> string \<Rightarrow> soundcat" where
  "add_category self category_name directory =
     self\<lparr>categories := (categories self)(category_name \<mapsto> directory)\<rparr>"

definition endswith :: "string \<Rightarrow> string \<Rightarrow> bool" where
  "endswith s suffix =
     (length suffix \<le> length s \<and> drop (length s - length suffix) s = suffix)"

text \<open>
  \<open>random.randrange(start, stop)\<close>: a \<open>ValueError\<close> when the range is empty, otherwise a
  member of the range; \<open>rnd\<close> is the generator's next number.
\<close>

definition randrange :: "nat \<Rightarrow> int \<Rightarrow> int \<Rightarrow> py_error + int" where
  "randrange rnd start stop =
     (if stop - start \<le> 0 then Inl ValueError
      else Inr (start + int rnd mod (stop - start)))"

text \<open>
  The rate check of line 120, \<open>not use_pps or time.time() - self._last_play_time > 1/self.pps\<close>:
  the right operand is evaluated only when \<open>use_pps\<close> is true, and its division fails when
  \<open>pps\<close> is zero. \<open>now\<close> is the clock reading of this line. The two sides of the
  comparison are doubles.
\<close>

definition may_play :: "'s surroundings \<Rightarrow> soundcat \<Rightarrow> bool \<Rightarrow> real \<Rightarrow> py_error + bool" where
  "may_play env self use_pps now =
     (if \<not> use_pps then Inr True
      else if pps self = 0 then Inl ZeroDivisionError
      else Inr (to_double env (now - last_play_time self) > to_double env (1 / pps self)))"

text \<open>
  \<open>play\<close>. \<open>rnd\<close> is the random generator's next number, \<open>now\<close> and \<open>now'\<close> are the
  clock readings of lines 120 and 134. The result is the exception, or the object
  after the call with the list of the paths that were loaded and whose playback was
  started. An exception leaves the object as it was: line 134 is not reached.
\<close>

definition play ::
  "'s surroundings \<Rightarrow> soundcat \<Rightarrow> nat \<Rightarrow> real \<Rightarrow> real \<Rightarrow> string \<Rightarrow> bool
     \<Rightarrow> py_error + soundcat \<times> string list" where
  "play env self rnd now now' category_name use_pps =
     (case may_play env self use_pps now of
        Inl e \<Rightarrow> Inl e
      | Inr False \<Rightarrow> Inr (self, [])
      | Inr True \<Rightarrow>
          (case categories self category_name of
             None \<Rightarrow> Inl KeyError
           | Some directory \<Rightarrow>
               (case listdir env directory of
                  Inl e \<Rightarrow> Inl e
                | Inr entries \<Rightarrow>
                    (let sounds = filter (\<lambda>entry. endswith entry ''.wav'') entries in
                     case randrange rnd 0 (int (length sounds)) of
                       Inl e \<Rightarrow> Inl e
                     | Inr i \<Rightarrow>
                         (case mixer_Sound env (directory @ ''/'' @ sounds ! nat i) of
                            Inl e \<Rightarrow> Inl e
                          | Inr sound \<Rightarrow>
                              (case Sound_play env sound of
                                 Inl e \<Rightarrow> Inl e
                               | Inr u \<Rightarrow>
                                   Inr (self\<lparr>last_play_time := now'\<rparr>,
                                        [directory @ ''/'' @ sounds ! nat i])))))))"

section \<open>The crop in the specification's words\<close>

text \<open>
  The specification's crop of a frame to rows \<open>[y, h)\<close> and columns \<open>[x, w)\<close>: the rows
  whose index lies in the first interval, and of each the entries whose index lies in
  the second. It is compared below with the slice the source takes.
\<close>

definition rows_cols :: "'p image \<Rightarrow> nat \<Rightarrow> nat \<Rightarrow> nat \<Rightarrow> nat \<Rightarrow> 'p image" where
  "rows_cols frame y h x w = map (\<lambda>row. nths row {x..<w}) (nths frame {y..<h})"

section \<open>A renderer, classifiers and scenes for the worked examples\<close>

text \<open>
  The examples need the two capabilities as concrete functions. \<open>paint_outline\<close> colours
  the pixels on the outline of the rectangle with corners \<open>pt1\<close> and \<open>pt2\<close>.
  \<open>two_bodies\<close> reports an upper body of 60 by 60 pixels at \<open>(0, 0)\<close> and one at
  \<open>(70, 0)\<close>. \<open>skin_face\<close> reports a face of 25 by 25 pixels at \<open>(20, 20)\<close> of an image
  whose pixel in row 30, column 30 has the colour \<open>skin\<close>, otherwise one at \<open>(30, 20)\<close>
  if the pixel in row 30, column 40 has it, and otherwise nothing. The scenes are black
  frames of 120 rows and 200 columns with one or two pixels of that colour: in
  \<open>scene_one_face\<close> within the first upper body, in \<open>scene_face_in_second\<close> within the
  second, in \<open>scene_two_faces\<close> within both.
\<close>

definition paint_outline :: "color draw" where
  "paint_outline img pt1 pt2 color thickness =
     map (\<lambda>(r, row).
       map (\<lambda>(c, px).
         if ((int r = snd pt1 \<or> int r = snd pt2) \<and> fst pt1 \<le> int c \<and> int c \<le> fst pt2) \<or>
            ((int c = fst pt1 \<or> int c = fst pt2) \<and> snd pt1 \<le> int r \<and> int r \<le> snd pt2)
         then color else px) (zip [0..<length row] row)) (zip [0..<length img] img)"

definition skin :: color where
  "skin = (150, 180, 230)"

definition black :: color where
  "black = (0, 0, 0)"

definition pixel_is :: "'p image \<Rightarrow> nat \<Rightarrow> nat \<Rightarrow> 'p \<Rightarrow> bool" where
  "pixel_is img r c v = (r < length img \<and> c < length (img ! r) \<and> img ! r ! c = v)"

definition two_bodies :: "color cascade" where
  "two_bodies img scale neighbours flags min_size = [(0, 0, 60, 60), (70, 0, 60, 60)]"

definition skin_face :: "color cascade" where
  "skin_face img scale neighbours flags min_size =
     (if pixel_is img 30 30 skin then [(20, 20, 25, 25)]
      else if pixel_is img 30 40 skin then [(30, 20, 25, 25)]
      else [])"

definition scene_one_face :: "color image" where
  "scene_one_face =
     (replicate 120 (replicate 200 black))[30 := (replicate 200 black)[30 := skin]]"

definition scene_two_faces :: "color image" where
  "scene_two_faces =
     (replicate 120 (replicate 200 black))[30 := (replicate 200 black)[30 := skin, 110 := skin]]"

definition scene_face_in_second :: "color image" where
  "scene_face_in_second =
     (replicate 120 (replicate 200 black))[30 := (replicate 200 black)[110 := skin]]"



section \<open>The motion filter in the specification's words\<close>

text \<open>
  The specification keeps a contour when its area is at least \<open>minArea\<close> and the area of
  its bounding box does not exceed \<open>maxArea\<close>, and draws the bounding box of every contour
  it keeps: a green rectangle of thickness 2 from \<open>(x, y)\<close> to \<open>(x + w, y + h)\<close>. Both
  are compared below with the loop of the source.
\<close>

definition within_area_limits :: "('p, 'g, 'c) cv2 \<Rightarrow> int \<Rightarrow> int \<Rightarrow> 'c \<Rightarrow> bool" where
  "within_area_limits cv min_area max_area c =
     (real_of_int min_area \<le> contourArea cv c \<and>
      (case boundingRect cv c of (x, y, w, h) \<Rightarrow> w * h \<le> max_area))"

definition draw_bounding_box :: "('p, 'g, 'c) cv2 \<Rightarrow> 'p image \<Rightarrow> 'c \<Rightarrow> 'p image" where
  "draw_bounding_box cv img c =
     (case boundingRect cv c of (x, y, w, h) \<Rightarrow>
        rectangle cv img (x, y) (x + w, y + h) (0, 255, 0) 2)"

section \<open>A vision library and contours for the worked examples\<close>

text \<open>
  A library that finds the given contours in every mask; a contour is its area with its
  bounding box. Of the three contours one is too small, one is kept and one has too
  large a bounding box for the default limits 200 and 245760.
\<close>

definition fixed_contours :: "(real \<times> rect) list \<Rightarrow> (color, unit, real \<times> rect) cv2" where
  "fixed_contours cnts =
     \<lparr>cvtColor = (\<lambda>img. ()), GaussianBlur = (\<lambda>img ksize sigma. ()),
      absdiff = (\<lambda>a b. ()), threshold = (\<lambda>img t maxval. ()), dilate = (\<lambda>img it. ()),
      findContours = (\<lambda>img. cnts), contourArea = fst, boundingRect = snd,
      rectangle = paint_outline\<rparr>"

definition three_contours :: "(real \<times> rect) list" where
  "three_contours =
     [(50, (5, 5, 10, 10)), (500, (10, 20, 25, 20)), (250000, (0, 0, 600, 500))]"

section \<open>Surroundings and an object for the worked examples\<close>

text \<open>
  A file system of three directories: one with two samples, one without any, and one
  with a file that the audio library cannot load; every other path is missing. In the
  examples every difference and quotient taken at line 120 is itself a double, so the
  rounding leaves it as it is. The object is a \<open>Soundcat\<close> constructed at time 0 with
  \<open>pps = 0.5\<close>, so with two seconds between plays, to which the first two directories
  have been added.
\<close>

definition sound_dirs :: "string \<Rightarrow> py_error + string list" where
  "sound_dirs directory =
     (if directory = ''/snd/hello'' then Inr [''a.wav'', ''notes.txt'', ''b.wav'']
      else if directory = ''/snd/empty'' then Inr [''notes.txt'']
      else if directory = ''/snd/broken'' then Inr [''bad.wav'']
      else Inl FileNotFoundError)"

definition example_surroundings :: "string surroundings" where
  "example_surroundings =
     \<lparr>to_double = (\<lambda>x. x),
      listdir = sound_dirs,
      mixer_Sound = (\<lambda>path. if path = ''/snd/broken/bad.wav'' then Inl pygame_error
                             else Inr path),
      Sound_play = (\<lambda>sound. Inr ())\<rparr>"

definition fresh_soundcat :: soundcat where
  "fresh_soundcat =
     add_category (add_category (soundcat_init (1 / 2) 0) ''Hello'' ''/snd/hello'')
       ''Empty'' ''/snd/empty''"

section \<open>Pattern Detector\<close>

lemma int32_fits: "fits_int32 v \<Longrightarrow> int32 v = v"
  by (simp add: int32_def fits_int32_def)

lemma fst_detect_pattern:
  "fst (detect_pattern img cascade min_rectangle) =
     map (\<lambda>(x, y, w, h). (x, y, int32 (x + w), int32 (y + h)))
       (cascade img (12 / 10) 3 1 min_rectangle)"
  by (cases "cascade img (12 / 10) 3 1 min_rectangle")
     (simp_all add: detect_pattern_def Let_def case_prod_unfold add.commute)

lemma snd_detect_pattern: "snd (detect_pattern img cascade min_rectangle) = img"
  by (simp add: detect_pattern_def Let_def)

text \<open>
  C5. When the corners \<open>x + width\<close> and \<open>y + height\<close> of the classifier's rectangles are
  numbers of the 32-bit range, as they are for rectangles within a frame,
  \<open>detect_pattern\<close> returns every rectangle \<open>(x, y, width, height)\<close> as
  \<open>(x, y, x + width, y + height)\<close>, in the classifier's order, together with the image
  it was given. An empty answer gives the empty list: the function has no failing
  branch.
\<close>

theorem detect_pattern_corner_form:
  assumes "\<forall>(x, y, width, height) \<in> set (cascade img (12 / 10) 3 1 min_rectangle).
             fits_int32 (x + width) \<and> fits_int32 (y + height)"
  shows "detect_pattern img cascade min_rectangle =
     (map (\<lambda>(x, y, width, height). (x, y, x + width, y + height))
        (cascade img (12 / 10) 3 1 min_rectangle), img)"
proof -
  have "map (\<lambda>(x, y, w, h). (x, y, int32 (x + w), int32 (y + h)))
          (cascade img (12 / 10) 3 1 min_rectangle) =
        map (\<lambda>(x, y, width, height). (x, y, x + width, y + height))
          (cascade img (12 / 10) 3 1 min_rectangle)"
    using assms by (intro map_cong refl) (auto simp: int32_fits)
  then show ?thesis
    by (simp add: prod_eq_iff fst_detect_pattern snd_detect_pattern)
qed

theorem detect_pattern_corner_form_witness:
  "fits_int32 (0 + 60) \<and> fits_int32 (70 + 60)
   \<and> two_bodies scene_one_face (12 / 10) 3 1 (60, 60) = [(0, 0, 60, 60), (70, 0, 60, 60)]
   \<and> detect_pattern scene_one_face two_bodies (60, 60) =
       ([(0, 0, 60, 60), (70, 0, 130, 60)], scene_one_face)
   \<and> skin_face [[black]] (12 / 10) 3 1 (25, 25) = []
   \<and> detect_pattern [[black]] skin_face (25, 25) = ([], [[black]])"
  using detect_pattern_corner_form [of two_bodies scene_one_face "(60, 60)"]
        detect_pattern_corner_form [of skin_face "[[black]]" "(25, 25)"]
  by (simp add: two_bodies_def skin_face_def pixel_is_def fits_int32_def)

section \<open>Two-Stage Detector\<close>

subsection \<open>The loops as folds\<close>

lemma box_foldl:
  "box cv2_rectangle coords img color =
     foldl (\<lambda>f (x1, y1, x2, y2). cv2_rectangle f (x1, y1) (x2, y2) color 2) img coords"
  by (induction cv2_rectangle coords img color rule: box.induct) simp_all


text \<open>
  After the loop, \<open>rects_face\<close> holds what the classifier found in the crop of the upper
  body processed last, whatever it found in the others.
\<close>

lemma search_faces_snoc:
  "search_faces cv2_rectangle cascade_face (rects_upperbody @ [(x, y, w, h)]) (frame, rects_face) =
     (let frame' = fst (search_faces cv2_rectangle cascade_face rects_upperbody (frame, rects_face));
          rects_face' = fst (detect_pattern (slice2 frame' y h x w) cascade_face (25, 25))
      in (draw_faces cv2_rectangle x y rects_face' frame', rects_face'))"
  by (induction cv2_rectangle cascade_face rects_upperbody "(frame, rects_face)"
        arbitrary: frame rects_face rule: search_faces.induct)
     (simp_all add: Let_def)

lemma double_cascade_eq:
  "double_cascade cv2_rectangle frame0 return_faces cascade_upperbody cascade_face =
     (let rects_upperbody = fst (detect_pattern frame0 cascade_upperbody (60, 60));
          state = search_faces cv2_rectangle cascade_face rects_upperbody
                    (box cv2_rectangle rects_upperbody frame0 (0, 255, 0), [])
      in (fst state, snd state \<noteq> [],
          if return_faces
          then Some [(int32 (xf + x), int32 (yf + y), int32 (wf' + x), int32 (hf + y)).
                       (xf, yf, wf', hf) \<leftarrow> snd state, (x, y, w, h) \<leftarrow> rects_upperbody]
          else None))"
proof (cases "cascade_upperbody frame0 (12 / 10) 3 1 (60, 60)")
  case Nil
  then show ?thesis
    by (simp add: double_cascade_def detect_pattern_def Let_def)
next
  case (Cons r rs)
  then show ?thesis
    by (simp add: double_cascade_def detect_pattern_def Let_def case_prod_unfold)
qed

subsection \<open>Slices of non-negative bounds\<close>

lemma nths_cong_index:
  assumes "\<And>i. i < length xs \<Longrightarrow> (i \<in> A) = (i \<in> B)"
  shows "nths xs A = nths xs B"
proof -
  have "filter (\<lambda>p. snd p \<in> A) (zip xs [0..<length xs]) =
        filter (\<lambda>p. snd p \<in> B) (zip xs [0..<length xs])"
    by (rule filter_cong) (auto simp: in_set_zip assms)
  then show ?thesis
    by (simp add: nths_def)
qed

lemma take_drop_nths: "take (b - a) (drop a xs) = nths xs {a..<b}"
proof -
  have "take (b - a) (drop a xs) = nths (drop a xs) {..<b - a}"
    by simp
  also have "\<dots> = nths xs ((+) a ` {..<b - a})"
    by (rule nths_drop)
  also have "(+) a ` {..<b - a} = {a..<b}"
  proof (cases "a \<le> b")
    case True
    then show ?thesis
      using image_add_atLeastLessThan [of a 0 "b - a"]
      by (simp add: lessThan_atLeast0 add.commute)
  next
    case False
    then show ?thesis by simp
  qed
  finally show ?thesis .
qed

lemma py_slice_nths:
  assumes "0 \<le> lo" and "0 \<le> hi"
  shows "py_slice xs lo hi = nths xs {nat lo..<nat hi}"
proof -
  have "py_slice xs lo hi =
        nths xs {min (length xs) (nat lo)..<min (length xs) (nat hi)}"
    using assms by (simp add: py_slice_def slice_bound_def take_drop_nths)
  also have "\<dots> = nths xs {nat lo..<nat hi}"
    by (rule nths_cong_index) auto
  finally show ?thesis .
qed

lemma slice2_rows_cols:
  assumes "0 \<le> x" and "0 \<le> y" and "0 \<le> w" and "0 \<le> h"
  shows "slice2 frame y h x w = rows_cols frame (nat y) (nat h) (nat x) (nat w)"
  using assms by (simp add: slice2_def rows_cols_def py_slice_nths)

subsection \<open>The example renderer and scenes\<close>

lemma length_paint_outline [simp]:
  "length (paint_outline img pt1 pt2 color thickness) = length img"
  by (simp add: paint_outline_def)

lemma length_nth_paint_outline [simp]:
  "r < length img \<Longrightarrow> length (paint_outline img pt1 pt2 color thickness ! r) = length (img ! r)"
  by (simp add: paint_outline_def)

lemma nth_paint_outline [simp]:
  "r < length img \<Longrightarrow> c < length (img ! r) \<Longrightarrow>
   paint_outline img (x1, y1) (x2, y2) color thickness ! r ! c =
     (if ((int r = y1 \<or> int r = y2) \<and> x1 \<le> int c \<and> int c \<le> x2) \<or>
         ((int c = x1 \<or> int c = x2) \<and> y1 \<le> int r \<and> int r \<le> y2)
      then color else img ! r ! c)"
  by (simp add: paint_outline_def)

lemma scene_one_face_shape [simp]:
  "length scene_one_face = 120" "r < 120 \<Longrightarrow> length (scene_one_face ! r) = 200"
  by (simp_all add: scene_one_face_def nth_list_update)

lemma scene_two_faces_shape [simp]:
  "length scene_two_faces = 120" "r < 120 \<Longrightarrow> length (scene_two_faces ! r) = 200"
  by (simp_all add: scene_two_faces_def nth_list_update)

lemma scene_one_face_pixel [simp]:
  "r < 120 \<Longrightarrow> c < 200 \<Longrightarrow>
   scene_one_face ! r ! c = (if r = 30 \<and> c = 30 then skin else black)"
  by (simp add: scene_one_face_def nth_list_update)

lemma scene_face_in_second_shape [simp]:
  "length scene_face_in_second = 120" "r < 120 \<Longrightarrow> length (scene_face_in_second ! r) = 200"
  by (simp_all add: scene_face_in_second_def nth_list_update)

lemma scene_face_in_second_pixel [simp]:
  "r < 120 \<Longrightarrow> c < 200 \<Longrightarrow>
   scene_face_in_second ! r ! c = (if r = 30 \<and> c = 110 then skin else black)"
  by (simp add: scene_face_in_second_def nth_list_update)

lemma scene_two_faces_pixel [simp]:
  "r < 120 \<Longrightarrow> c < 200 \<Longrightarrow>
   scene_two_faces ! r ! c = (if r = 30 \<and> (c = 30 \<or> c = 110) then skin else black)"
  by (auto simp add: scene_two_faces_def nth_list_update)

lemmas example_defs =
  detect_pattern_def slice2_def py_slice_def slice_bound_def skin_face_def pixel_is_def
  skin_def black_def Let_def int32_fits fits_int32_def

lemma two_bodies_found [simp]:
  "fst (detect_pattern img two_bodies (60, 60)) = [(0, 0, 60, 60), (70, 0, 130, 60)]"
  by (simp add: detect_pattern_def two_bodies_def int32_def)

lemma one_face_first_region:
  "fst (detect_pattern
          (slice2 (box paint_outline [(0, 0, 60, 60), (70, 0, 130, 60)] scene_one_face (0, 255, 0))
             0 60 0 60) skin_face (25, 25)) = [(20, 20, 45, 45)]"
  by (simp add: example_defs)

lemma one_face_last_region:
  "snd (search_faces paint_outline skin_face [(0, 0, 60, 60), (70, 0, 130, 60)]
          (box paint_outline [(0, 0, 60, 60), (70, 0, 130, 60)] scene_one_face (0, 255, 0), [])) = []"
  by (simp add: example_defs)

lemma one_face_red_pixel:
  "fst (search_faces paint_outline skin_face [(0, 0, 60, 60), (70, 0, 130, 60)]
          (box paint_outline [(0, 0, 60, 60), (70, 0, 130, 60)] scene_one_face (0, 255, 0), []))
     ! 20 ! 20 = (0, 0, 255)"
  by (simp add: example_defs)

lemma two_faces_first_region:
  "fst (detect_pattern
          (slice2 (box paint_outline [(0, 0, 60, 60), (70, 0, 130, 60)] scene_two_faces (0, 255, 0))
             0 60 0 60) skin_face (25, 25)) = [(20, 20, 45, 45)]"
  by (simp add: example_defs)

lemma two_faces_last_region:
  "snd (search_faces paint_outline skin_face [(0, 0, 60, 60), (70, 0, 130, 60)]
          (box paint_outline [(0, 0, 60, 60), (70, 0, 130, 60)] scene_two_faces (0, 255, 0), [])) =
     [(30, 20, 55, 45)]"
  by (simp add: example_defs)




subsection \<open>The found flag\<close>

text \<open>
  C1. In \<open>scene_one_face\<close> the detector is given two upper bodies. The face classifier
  finds a face in the crop of the first, the detector draws it in red at
  \<open>(20, 20)\<close>, and the crop of the second holds no face. A fine rectangle was produced,
  yet the flag returned is false: the flag tells whether the upper body processed last
  holds a face.
\<close>

theorem double_cascade_found_forgets_earlier_faces:
  "fst (detect_pattern
          (slice2 (box paint_outline [(0, 0, 60, 60), (70, 0, 130, 60)] scene_one_face (0, 255, 0))
             0 60 0 60) skin_face (25, 25)) = [(20, 20, 45, 45)]
   \<and> fst (double_cascade paint_outline scene_one_face False two_bodies skin_face) ! 20 ! 20
       = (0, 0, 255)
   \<and> fst (snd (double_cascade paint_outline scene_one_face False two_bodies skin_face)) = False"
proof -
  have "fst (double_cascade paint_outline scene_one_face False two_bodies skin_face) ! 20 ! 20
        = (0, 0, 255)"
    by (simp only: double_cascade_eq two_bodies_found Let_def fst_conv one_face_red_pixel)
  moreover
  have "fst (snd (double_cascade paint_outline scene_one_face False two_bodies skin_face)) = False"
    by (simp only: double_cascade_eq two_bodies_found Let_def fst_conv snd_conv
          one_face_last_region) simp
  ultimately show ?thesis
    using one_face_first_region by simp
qed

subsection \<open>The rectangles returned\<close>

text \<open>
  C2. In \<open>scene_two_faces\<close> each of the two upper bodies holds a face: the first at
  \<open>(20, 20, 45, 45)\<close> of its crop, the second at \<open>(30, 20, 55, 45)\<close> of its crop. With
  \<open>return_faces\<close> the detector returns two rectangles, the second face paired with the
  two origins \<open>(0, 0)\<close> and \<open>(70, 0)\<close>, not two times two: the first face is in no pair.
\<close>

theorem double_cascade_returns_last_faces_only:
  "fst (detect_pattern
          (slice2 (box paint_outline [(0, 0, 60, 60), (70, 0, 130, 60)] scene_two_faces (0, 255, 0))
             0 60 0 60) skin_face (25, 25)) = [(20, 20, 45, 45)]
   \<and> snd (double_cascade paint_outline scene_two_faces True two_bodies skin_face)
       = (True, Some [(30, 20, 55, 45), (100, 20, 125, 45)])"
proof -
  have "snd (double_cascade paint_outline scene_two_faces True two_bodies skin_face)
        = (True, Some [(30, 20, 55, 45), (100, 20, 125, 45)])"
    by (simp only: double_cascade_eq two_bodies_found Let_def fst_conv snd_conv
          two_faces_last_region) (simp add: int32_def)
  then show ?thesis
    using two_faces_first_region by simp
qed

subsection \<open>Translation into the full frame\<close>




subsection \<open>The crop given to the face classifier\<close>

text \<open>
  C4. For an upper body \<open>(x, y, w, h)\<close> of non-negative components, as the classifier
  reports them, the slice \<open>frame[y:h, x:w]\<close> is the crop of the frame to rows \<open>[y, h)\<close>
  and columns \<open>[x, w)\<close>, and the loop goes on with what the face classifier finds in
  that crop of the frame as it is when the upper body is reached.
\<close>

theorem coarse_region_crop:
  assumes "0 \<le> x" and "0 \<le> y" and "0 \<le> w" and "0 \<le> h"
  shows "slice2 frame y h x w = rows_cols frame (nat y) (nat h) (nat x) (nat w)
    \<and> search_faces cv2_rectangle cascade_face ((x, y, w, h) # rects_upperbody) (frame, rects_face) =
       (let frame_crop = rows_cols frame (nat y) (nat h) (nat x) (nat w);
            rects_face' = fst (detect_pattern frame_crop cascade_face (25, 25))
        in search_faces cv2_rectangle cascade_face rects_upperbody
             (draw_faces cv2_rectangle x y rects_face' frame, rects_face'))"
  using assms by (simp add: slice2_rows_cols Let_def)

theorem coarse_region_crop_witness:
  "(0::int) \<le> 1 \<and> (0::int) \<le> 0 \<and> (0::int) \<le> 3 \<and> (0::int) \<le> 2
   \<and> slice2 [[black, skin, black, black], [black, black, skin, black], [skin, skin, skin, skin]]
        0 2 1 3 = [[skin, black], [black, skin]]
   \<and> search_faces paint_outline skin_face [(1, 0, 3, 2)]
        ([[black, skin, black, black], [black, black, skin, black], [skin, skin, skin, skin]], []) =
       ([[black, skin, black, black], [black, black, skin, black], [skin, skin, skin, skin]], [])"
proof -
  have crop:
    "rows_cols [[black, skin, black, black], [black, black, skin, black], [skin, skin, skin, skin]]
       0 2 1 3 = [[skin, black], [black, skin]]"
    by (simp add: rows_cols_def nths_Cons)
  have faces: "fst (detect_pattern [[skin, black], [black, skin]] skin_face (25, 25)) = []"
    by (simp add: fst_detect_pattern skin_face_def pixel_is_def)
  show ?thesis
    using coarse_region_crop
            [of 1 0 3 2
                "[[black, skin, black, black], [black, black, skin, black], [skin, skin, skin, skin]]"
                paint_outline skin_face "[]" "[]"] crop
    by (simp add: faces Let_def)
qed

section \<open>Motion Detector\<close>

lemma mark_contours_eq:
  "frame < length mem \<Longrightarrow>
   mark_contours cv frame min_area max_area cnts (mem, found) =
     (mem[frame := foldl (draw_bounding_box cv) (mem ! frame)
                     (filter (within_area_limits cv min_area max_area) cnts)],
      found \<or> filter (within_area_limits cv min_area max_area) cnts \<noteq> [])"
proof (induction cnts arbitrary: mem found)
  case Nil
  then show ?case by simp
next
  case (Cons c cnts)
  then show ?case
    by (auto simp: within_area_limits_def draw_bounding_box_def split: prod.splits)
qed

lemma motion_detection_eq:
  assumes "frame < length mem" and "first_frame < length mem"
  shows "motion_detection cv mem frame first_frame thresh it min_area max_area =
     (let cnts = motion_contours cv (mem ! frame) (mem ! first_frame) thresh it;
          kept = filter (within_area_limits cv min_area max_area) cnts
      in ((mem @ [mem ! frame])[frame := foldl (draw_bounding_box cv) (mem ! frame) kept],
          frame, length mem, kept \<noteq> []))"
  using assms
  by (simp add: motion_detection_def ndarray_copy_def Let_def mark_contours_eq nth_append)

lemma fixed_contours_fields [simp]:
  "findContours (fixed_contours cnts) img = cnts"
  "contourArea (fixed_contours cnts) = fst"
  "boundingRect (fixed_contours cnts) = snd"
  "rectangle (fixed_contours cnts) = paint_outline"
  by (simp_all add: fixed_contours_def)

lemma three_contours_kept:
  "filter (within_area_limits (fixed_contours cnts) 200 245760) three_contours =
     [(500, (10, 20, 25, 20))]"
  by (simp add: three_contours_def within_area_limits_def)

text \<open>
  C6. Of the contours extracted from the two frames, those whose area is at least
  \<open>min_area\<close> and whose bounding box has an area of at most \<open>max_area\<close> get their bounding
  box drawn on the frame, in their order, and no other does; \<open>found\<close> is true exactly
  when there is such a contour.
\<close>

theorem motion_detection_boxes:
  assumes "frame < length mem" and "first_frame < length mem"
  shows "case motion_detection cv mem frame first_frame thresh it min_area max_area of
           (mem', frame', raw_frame, found) \<Rightarrow>
             let kept = filter (within_area_limits cv min_area max_area)
                          (motion_contours cv (mem ! frame) (mem ! first_frame) thresh it)
             in mem' ! frame' = foldl (draw_bounding_box cv) (mem ! frame) kept
                \<and> found = (kept \<noteq> [])"
  using assms by (simp add: motion_detection_eq Let_def)

theorem motion_detection_boxes_witness:
  "(0::nat) < length [scene_one_face, scene_two_faces]
   \<and> (1::nat) < length [scene_one_face, scene_two_faces]
   \<and> filter (within_area_limits (fixed_contours three_contours) 200 245760)
        (motion_contours (fixed_contours three_contours) scene_one_face scene_two_faces 10 35)
      = [(500, (10, 20, 25, 20))]
   \<and> (case motion_detection (fixed_contours three_contours)
             [scene_one_face, scene_two_faces] 0 1 10 35 200 245760 of
         (mem', frame', raw_frame, found) \<Rightarrow>
           mem' ! frame' = paint_outline scene_one_face (10, 20) (35, 40) (0, 255, 0) 2
           \<and> found = True)"
proof -
  have cnts: "motion_contours (fixed_contours three_contours) img ref 10 35 = three_contours"
    for img ref
    by (simp add: motion_contours_def)
  show ?thesis
    using motion_detection_boxes
            [where frame = 0 and mem = "[scene_one_face, scene_two_faces]" and first_frame = 1
               and cv = "fixed_contours three_contours" and thresh = 10 and it = 35
               and min_area = 200 and max_area = 245760]
    by (simp add: cnts three_contours_kept draw_bounding_box_def split: prod.splits)
qed

text \<open>
  C7. \<open>motion_detection\<close> returns its frame under the same reference and, as
  \<open>raw_frame\<close>, a reference that was not in the store before the call; its cell holds
  the frame as it was when the call began. Every other array of the store is as it
  was, so the call leaves nothing behind but the boxes on its frame.
\<close>

theorem motion_detection_raw_frame:
  assumes "frame < length mem"
  shows "case motion_detection cv mem frame first_frame thresh it min_area max_area of
           (mem', frame', raw_frame, found) \<Rightarrow>
             frame' = frame \<and> raw_frame = length mem \<and> length mem' = Suc (length mem)
             \<and> mem' ! raw_frame = mem ! frame
             \<and> (\<forall>a < length mem. a \<noteq> frame \<longrightarrow> mem' ! a = mem ! a)"
  using assms
  by (simp add: motion_detection_def ndarray_copy_def Let_def mark_contours_eq nth_append)

theorem motion_detection_raw_frame_witness:
  "(0::nat) < length [scene_one_face, scene_two_faces]
   \<and> motion_detection (fixed_contours three_contours)
        [scene_one_face, scene_two_faces] 0 1 10 35 200 245760 =
      ([paint_outline scene_one_face (10, 20) (35, 40) (0, 255, 0) 2,
        scene_two_faces, scene_one_face], 0, 2, True)"
proof -
  have cnts: "motion_contours (fixed_contours three_contours) img ref 10 35 = three_contours"
    for img ref
    by (simp add: motion_contours_def)
  have "motion_detection (fixed_contours three_contours)
          [scene_one_face, scene_two_faces] 0 1 10 35 200 245760 =
        ([paint_outline scene_one_face (10, 20) (35, 40) (0, 255, 0) 2,
          scene_two_faces, scene_one_face], 0, 2, True)"
    by (simp add: motion_detection_eq cnts three_contours_kept draw_bounding_box_def)
  then show ?thesis
    using motion_detection_raw_frame
            [where frame = 0 and mem = "[scene_one_face, scene_two_faces]" and first_frame = 1
               and cv = "fixed_contours three_contours" and thresh = 10 and it = 35
               and min_area = 200 and max_area = 245760]
    by simp
qed

section \<open>Sound Categorizer\<close>

lemma add_category_fields [simp]:
  "pps (add_category self n d) = pps self"
  "last_play_time (add_category self n d) = last_play_time self"
  "categories (add_category self n d) = (categories self)(n \<mapsto> d)"
  by (simp_all add: add_category_def)

lemma soundcat_init_fields [simp]:
  "pps (soundcat_init pps0 t0) = pps0"
  "last_play_time (soundcat_init pps0 t0) = t0"
  "categories (soundcat_init pps0 t0) = Map.empty"
  by (simp_all add: soundcat_init_def)

lemma add_categories_fields [simp]:
  "pps (foldl (\<lambda>s (n, d). add_category s n d) self cats) = pps self"
  "last_play_time (foldl (\<lambda>s (n, d). add_category s n d) self cats) = last_play_time self"
  by (induction cats arbitrary: self) (simp_all add: case_prod_unfold)

lemma example_surroundings_fields [simp]:
  "to_double example_surroundings x = x"
  "listdir example_surroundings = sound_dirs"
  "mixer_Sound example_surroundings path =
     (if path = ''/snd/broken/bad.wav'' then Inl pygame_error else Inr path)"
  "Sound_play example_surroundings sound = Inr ()"
  by (simp_all add: example_surroundings_def)

lemma mono_example_surroundings: "mono (to_double example_surroundings)"
  by (simp add: mono_def)

lemma fresh_soundcat_fields [simp]:
  "pps fresh_soundcat = 1 / 2" "last_play_time fresh_soundcat = 0"
  "categories fresh_soundcat ''Hello'' = Some ''/snd/hello''"
  "categories fresh_soundcat ''Empty'' = Some ''/snd/empty''"
  "categories fresh_soundcat ''Nope'' = None"
  by (simp_all add: fresh_soundcat_def)

lemma play_suppressed:
  "pps self \<noteq> 0 \<Longrightarrow>
   to_double env (now - last_play_time self) \<le> to_double env (1 / pps self) \<Longrightarrow>
   play env self rnd now now' name True = Inr (self, [])"
  by (simp add: play_def may_play_def)

lemma play_suppressed_real:
  assumes "mono (to_double env)" and "pps self \<noteq> 0"
      and "now - last_play_time self \<le> 1 / pps self"
  shows "play env self rnd now now' name True = Inr (self, [])"
proof -
  have "to_double env (now - last_play_time self) \<le> to_double env (1 / pps self)"
    using assms(1,3) by (rule monoD)
  with assms(2) show ?thesis
    by (rule play_suppressed)
qed

lemma play_cases:
  "play env self rnd now now' name use_pps = Inr (self', played) \<Longrightarrow>
   (played = [] \<and> self' = self) \<or>
   (length played = 1 \<and> self' = self\<lparr>last_play_time := now'\<rparr>)"
  by (auto simp: play_def may_play_def Let_def
           split: if_splits option.splits sum.splits bool.splits)

lemma may_play_through:
  "(use_pps \<longrightarrow> pps self \<noteq> 0 \<and>
      to_double env (1 / pps self) < to_double env (now - last_play_time self)) \<Longrightarrow>
   may_play env self use_pps now = Inr True"
  by (simp add: may_play_def)

lemma randrange_nonempty:
  "sounds \<noteq> [] \<Longrightarrow>
   randrange rnd 0 (int (length sounds)) = Inr (int (rnd mod length sounds))"
  by (simp add: randrange_def zmod_int)

lemma play_through:
  assumes "may_play env self use_pps now = Inr True"
  shows "play env self rnd now now' name use_pps =
     (case categories self name of
        None \<Rightarrow> Inl KeyError
      | Some directory \<Rightarrow>
          (case listdir env directory of
             Inl e \<Rightarrow> Inl e
           | Inr entries \<Rightarrow>
               (let sounds = filter (\<lambda>entry. endswith entry ''.wav'') entries in
                if sounds = [] then Inl ValueError
                else (case mixer_Sound env
                             (directory @ ''/'' @ sounds ! (rnd mod length sounds)) of
                        Inl e \<Rightarrow> Inl e
                      | Inr sound \<Rightarrow>
                          (case Sound_play env sound of
                             Inl e \<Rightarrow> Inl e
                           | Inr u \<Rightarrow>
                               Inr (self\<lparr>last_play_time := now'\<rparr>,
                                    [directory @ ''/'' @ sounds ! (rnd mod length sounds)]))))))"
  using assms
  by (simp add: play_def Let_def randrange_nonempty split: option.splits sum.splits)
     (simp add: randrange_def)

lemma fresh_soundcat_plays:
  "play example_surroundings fresh_soundcat 0 3 (13 / 4) ''Hello'' True =
     Inr (fresh_soundcat\<lparr>last_play_time := 13 / 4\<rparr>, [''/snd/hello/a.wav''])"
  by (simp add: play_def may_play_def sound_dirs_def endswith_def randrange_def)

subsection \<open>Rate limiting\<close>

text \<open>
  C8, as stated, fails. The object \<open>fresh_soundcat\<close> is constructed at time 0 with two
  seconds between plays. Two calls of \<open>play\<close> with \<open>use_pps\<close> on its registered category
  \<open>Hello\<close>, half a second and one second after the construction, are half a second
  apart; neither loads or plays a sample.
\<close>

theorem play_twice_no_playback:
  "categories fresh_soundcat ''Hello'' = Some ''/snd/hello''
   \<and> (1::real) - 1 / 2 < 1 / pps fresh_soundcat
   \<and> play example_surroundings fresh_soundcat 0 (1 / 2) (1 / 2) ''Hello'' True
       = Inr (fresh_soundcat, [])
   \<and> play example_surroundings fresh_soundcat 0 1 1 ''Hello'' True = Inr (fresh_soundcat, [])"
  by (simp add: play_def may_play_def)

text \<open>
  C8, amended. A call of \<open>play\<close> with \<open>use_pps\<close> that returns has either played nothing
  and left the object as it was, or played one sample and set the timestamp to the
  clock reading after the playback. In the second case a further call with \<open>use_pps\<close>
  less than \<open>1/pps\<close> seconds after the first, the clock not running backwards, plays
  nothing and leaves the object, with its timestamp, as it was: the two calls load and
  play exactly one sample. The rounding of double-precision arithmetic is monotone.
\<close>

theorem play_rate_limit:
  assumes rounding: "mono (to_double env)"
      and first: "play env self rnd1 t1 t1' name True = Inr (self1, played1)"
      and clock: "t1 \<le> t1'"
      and close: "t2 - t1 < 1 / pps self"
  shows "(played1 = [] \<and> self1 = self) \<or>
         (length played1 = 1 \<and> self1 = self\<lparr>last_play_time := t1'\<rparr> \<and>
          play env self1 rnd2 t2 t2' name True = Inr (self1, []))"
proof -
  have nz: "pps self \<noteq> 0"
    using first by (auto simp: play_def may_play_def split: if_splits)
  from play_cases [OF first] show ?thesis
  proof
    assume "played1 = [] \<and> self1 = self"
    then show ?thesis by simp
  next
    assume played: "length played1 = 1 \<and> self1 = self\<lparr>last_play_time := t1'\<rparr>"
    then have "pps self1 \<noteq> 0" and "t2 - last_play_time self1 \<le> 1 / pps self1"
      using nz clock close by simp_all
    with rounding have "play env self1 rnd2 t2 t2' name True = Inr (self1, [])"
      by (rule play_suppressed_real)
    with played show ?thesis by simp
  qed
qed

theorem play_rate_limit_witness:
  "mono (to_double example_surroundings)
   \<and> play example_surroundings fresh_soundcat 0 3 (13 / 4) ''Hello'' True =
       Inr (fresh_soundcat\<lparr>last_play_time := 13 / 4\<rparr>, [''/snd/hello/a.wav''])
   \<and> (3::real) \<le> 13 / 4 \<and> (4::real) - 3 < 1 / pps fresh_soundcat
   \<and> play example_surroundings (fresh_soundcat\<lparr>last_play_time := 13 / 4\<rparr>) 1 4 (17 / 4)
        ''Hello'' True =
       Inr (fresh_soundcat\<lparr>last_play_time := 13 / 4\<rparr>, [])"
proof -
  have clock: "(3::real) \<le> 13 / 4" and close: "(4::real) - 3 < 1 / pps fresh_soundcat"
    by simp_all
  from play_rate_limit
         [OF mono_example_surroundings fresh_soundcat_plays clock close, of 1 "17 / 4"]
  show ?thesis
    using fresh_soundcat_plays mono_example_surroundings by simp
qed

subsection \<open>Failures of play\<close>

text \<open>
  C9, as stated, fails. On the unregistered category \<open>Nope\<close> a call that the rate limit
  suppresses returns without any error. On the registered category \<open>Empty\<close>, whose
  directory holds no sample, \<open>play\<close> ends with the \<open>ValueError\<close> that
  \<open>random.randrange\<close> raises on an empty range, not with an error of its own. And on
  an object with \<open>pps = 0\<close> a call with \<open>use_pps\<close> ends with a division by zero.
\<close>

theorem play_failures_counterexample:
  "categories fresh_soundcat ''Nope'' = None
   \<and> play example_surroundings fresh_soundcat 0 1 1 ''Nope'' True = Inr (fresh_soundcat, [])
   \<and> categories fresh_soundcat ''Empty'' = Some ''/snd/empty''
   \<and> play example_surroundings fresh_soundcat 0 1 1 ''Empty'' False = Inl ValueError
   \<and> play example_surroundings (soundcat_init 0 0) 0 1 1 ''Nope'' True = Inl ZeroDivisionError"
  by (simp add: play_def may_play_def sound_dirs_def endswith_def randrange_def)

text \<open>
  C9, amended. With \<open>use_pps\<close> and \<open>pps = 0\<close> the call ends with
  \<open>ZeroDivisionError\<close>. A call with \<open>use_pps\<close> for which the comparison of line 120,
  taken in double precision, is false returns without playing and without an error,
  whatever the category. Every other call gets through. It ends with \<open>KeyError\<close> when
  the category was never registered, with the error of \<open>os.listdir\<close> when the
  directory cannot be listed, and with \<open>ValueError\<close> when the directory lists no entry
  ending in \<open>.wav\<close>. Otherwise it hands one of the entries ending in \<open>.wav\<close> to the
  audio library: when loading the sample or starting its playback raises, the call
  ends with that error and the timestamp is left as it was; when both succeed, the
  sample plays and the timestamp is set.
\<close>

theorem play_outcomes:
  "(use_pps \<and> pps self = 0 \<longrightarrow>
      play env self rnd now now' name use_pps = Inl ZeroDivisionError)
   \<and> (use_pps \<and> pps self \<noteq> 0 \<and>
       to_double env (now - last_play_time self) \<le> to_double env (1 / pps self) \<longrightarrow>
      play env self rnd now now' name use_pps = Inr (self, []))
   \<and> ((use_pps \<longrightarrow> pps self \<noteq> 0 \<and>
         to_double env (1 / pps self) < to_double env (now - last_play_time self)) \<longrightarrow>
      (categories self name = None \<longrightarrow>
         play env self rnd now now' name use_pps = Inl KeyError)
      \<and> (categories self name = Some directory \<and> listdir env directory = Inl e \<longrightarrow>
         play env self rnd now now' name use_pps = Inl e)
      \<and> (categories self name = Some directory \<and> listdir env directory = Inr entries \<and>
          filter (\<lambda>entry. endswith entry ''.wav'') entries = [] \<longrightarrow>
         play env self rnd now now' name use_pps = Inl ValueError)
      \<and> (categories self name = Some directory \<and> listdir env directory = Inr entries \<and>
          filter (\<lambda>entry. endswith entry ''.wav'') entries \<noteq> [] \<longrightarrow>
         (\<exists>entry \<in> set (filter (\<lambda>entry. endswith entry ''.wav'') entries).
            (\<forall>e'. mixer_Sound env (directory @ ''/'' @ entry) = Inl e' \<longrightarrow>
               play env self rnd now now' name use_pps = Inl e')
            \<and> (\<forall>sound e'. mixer_Sound env (directory @ ''/'' @ entry) = Inr sound \<and>
                  Sound_play env sound = Inl e' \<longrightarrow>
               play env self rnd now now' name use_pps = Inl e')
            \<and> (\<forall>sound u. mixer_Sound env (directory @ ''/'' @ entry) = Inr sound \<and>
                  Sound_play env sound = Inr u \<longrightarrow>
               play env self rnd now now' name use_pps =
                 Inr (self\<lparr>last_play_time := now'\<rparr>, [directory @ ''/'' @ entry])))))"
proof (intro conjI impI)
  assume "use_pps \<and> pps self = 0"
  then show "play env self rnd now now' name use_pps = Inl ZeroDivisionError"
    by (simp add: play_def may_play_def)
next
  assume "use_pps \<and> pps self \<noteq> 0 \<and>
          to_double env (now - last_play_time self) \<le> to_double env (1 / pps self)"
  then show "play env self rnd now now' name use_pps = Inr (self, [])"
    by (simp add: play_suppressed)
next
  assume "use_pps \<longrightarrow> pps self \<noteq> 0 \<and>
            to_double env (1 / pps self) < to_double env (now - last_play_time self)"
    and "categories self name = None"
  then show "play env self rnd now now' name use_pps = Inl KeyError"
    by (simp add: play_through may_play_through)
next
  assume "use_pps \<longrightarrow> pps self \<noteq> 0 \<and>
            to_double env (1 / pps self) < to_double env (now - last_play_time self)"
    and "categories self name = Some directory \<and> listdir env directory = Inl e"
  then show "play env self rnd now now' name use_pps = Inl e"
    by (simp add: play_through may_play_through)
next
  assume "use_pps \<longrightarrow> pps self \<noteq> 0 \<and>
            to_double env (1 / pps self) < to_double env (now - last_play_time self)"
    and "categories self name = Some directory \<and> listdir env directory = Inr entries \<and>
         filter (\<lambda>entry. endswith entry ''.wav'') entries = []"
  then show "play env self rnd now now' name use_pps = Inl ValueError"
    by (simp add: play_through may_play_through)
next
  let ?sounds = "filter (\<lambda>entry. endswith entry ''.wav'') entries"
  let ?entry = "?sounds ! (rnd mod length ?sounds)"
  assume through: "use_pps \<longrightarrow> pps self \<noteq> 0 \<and>
            to_double env (1 / pps self) < to_double env (now - last_play_time self)"
    and some: "categories self name = Some directory \<and> listdir env directory = Inr entries \<and>
         ?sounds \<noteq> []"
  then have eq: "play env self rnd now now' name use_pps =
      (case mixer_Sound env (directory @ ''/'' @ ?entry) of
         Inl e \<Rightarrow> Inl e
       | Inr sound \<Rightarrow>
           (case Sound_play env sound of
              Inl e \<Rightarrow> Inl e
            | Inr u \<Rightarrow> Inr (self\<lparr>last_play_time := now'\<rparr>, [directory @ ''/'' @ ?entry])))"
    by (simp add: play_through may_play_through Let_def)
  have mem: "?entry \<in> set ?sounds"
    using some by (intro nth_mem) simp
  show "\<exists>entry \<in> set ?sounds.
            (\<forall>e'. mixer_Sound env (directory @ ''/'' @ entry) = Inl e' \<longrightarrow>
               play env self rnd now now' name use_pps = Inl e')
            \<and> (\<forall>sound e'. mixer_Sound env (directory @ ''/'' @ entry) = Inr sound \<and>
                  Sound_play env sound = Inl e' \<longrightarrow>
               play env self rnd now now' name use_pps = Inl e')
            \<and> (\<forall>sound u. mixer_Sound env (directory @ ''/'' @ entry) = Inr sound \<and>
                  Sound_play env sound = Inr u \<longrightarrow>
               play env self rnd now now' name use_pps =
                 Inr (self\<lparr>last_play_time := now'\<rparr>, [directory @ ''/'' @ entry]))"
    by (rule bexI [where x = "?entry"]) (simp add: eq, rule mem)
qed

theorem play_outcomes_witness:
  "pps (soundcat_init 0 0) = 0
   \<and> play example_surroundings (soundcat_init 0 0) 0 1 1 ''Nope'' True = Inl ZeroDivisionError
   \<and> pps fresh_soundcat \<noteq> 0
   \<and> to_double example_surroundings (1 - last_play_time fresh_soundcat)
       \<le> to_double example_surroundings (1 / pps fresh_soundcat)
   \<and> play example_surroundings fresh_soundcat 0 1 1 ''Nope'' True = Inr (fresh_soundcat, [])
   \<and> categories fresh_soundcat ''Nope'' = None
   \<and> play example_surroundings fresh_soundcat 0 1 1 ''Nope'' False = Inl KeyError
   \<and> categories (add_category fresh_soundcat ''Gone'' ''/snd/gone'') ''Gone'' = Some ''/snd/gone''
   \<and> listdir example_surroundings ''/snd/gone'' = Inl FileNotFoundError
   \<and> play example_surroundings (add_category fresh_soundcat ''Gone'' ''/snd/gone'') 0 1 1
        ''Gone'' False = Inl FileNotFoundError
   \<and> categories fresh_soundcat ''Empty'' = Some ''/snd/empty''
   \<and> listdir example_surroundings ''/snd/empty'' = Inr [''notes.txt'']
   \<and> filter (\<lambda>entry. endswith entry ''.wav'') [''notes.txt''] = []
   \<and> play example_surroundings fresh_soundcat 0 1 1 ''Empty'' False = Inl ValueError
   \<and> categories (add_category fresh_soundcat ''Broken'' ''/snd/broken'') ''Broken''
       = Some ''/snd/broken''
   \<and> listdir example_surroundings ''/snd/broken'' = Inr [''bad.wav'']
   \<and> mixer_Sound example_surroundings ''/snd/broken/bad.wav'' = Inl pygame_error
   \<and> play example_surroundings (add_category fresh_soundcat ''Broken'' ''/snd/broken'') 0 1 1
        ''Broken'' False = Inl pygame_error
   \<and> categories fresh_soundcat ''Hello'' = Some ''/snd/hello''
   \<and> listdir example_surroundings ''/snd/hello'' = Inr [''a.wav'', ''notes.txt'', ''b.wav'']
   \<and> filter (\<lambda>entry. endswith entry ''.wav'') [''a.wav'', ''notes.txt'', ''b.wav'']
       = [''a.wav'', ''b.wav'']
   \<and> to_double example_surroundings (1 / pps fresh_soundcat)
       < to_double example_surroundings (3 - last_play_time fresh_soundcat)
   \<and> play example_surroundings fresh_soundcat 1 3 3 ''Hello'' True =
       Inr (fresh_soundcat\<lparr>last_play_time := 3\<rparr>, [''/snd/hello/b.wav''])"
proof -
  have plays: "play example_surroundings fresh_soundcat 1 3 3 ''Hello'' True =
       Inr (fresh_soundcat\<lparr>last_play_time := 3\<rparr>, [''/snd/hello/b.wav''])"
    by (simp add: play_def may_play_def sound_dirs_def endswith_def randrange_def)
  have broken: "play example_surroundings (add_category fresh_soundcat ''Broken'' ''/snd/broken'')
        0 1 1 ''Broken'' False = Inl pygame_error"
    by (simp add: play_def may_play_def sound_dirs_def endswith_def randrange_def)
  show ?thesis
    using play_outcomes
            [where env = example_surroundings and self = "soundcat_init 0 0" and use_pps = True
               and rnd = 0 and now = 1 and now' = 1 and name = "''Nope''"]
          play_outcomes
            [where env = example_surroundings and self = fresh_soundcat and use_pps = True
               and rnd = 0 and now = 1 and now' = 1 and name = "''Nope''"]
          play_outcomes
            [where env = example_surroundings and self = fresh_soundcat and use_pps = False
               and rnd = 0 and now = 1 and now' = 1 and name = "''Nope''"]
          play_outcomes
            [where env = example_surroundings
               and self = "add_category fresh_soundcat ''Gone'' ''/snd/gone''"
               and use_pps = False and rnd = 0 and now = 1
               and now' = 1 and name = "''Gone''" and directory = "''/snd/gone''"
               and e = FileNotFoundError]
          play_outcomes
            [where env = example_surroundings and self = fresh_soundcat and use_pps = False
               and rnd = 0 and now = 1 and now' = 1 and name = "''Empty''"
               and directory = "''/snd/empty''" and entries = "[''notes.txt'']"]
          plays broken
    by (simp add: sound_dirs_def endswith_def)
qed

subsection \<open>The first play after construction\<close>

text \<open>
  C10. The constructor stores the clock reading of the construction as the time of the
  last play. So on an object to which only categories have been added since, a call of
  \<open>play\<close> with \<open>use_pps\<close> no later than \<open>1/pps\<close> seconds after the construction returns
  without playing anything, although nothing was played before. The rounding of
  double-precision arithmetic is monotone.
\<close>

theorem first_play_after_construction:
  assumes "mono (to_double env)" and "rate \<noteq> 0" and "now - built \<le> 1 / rate"
  shows "last_play_time (soundcat_init rate built) = built
     \<and> play env (foldl (\<lambda>s (n, d). add_category s n d) (soundcat_init rate built) cats)
          rnd now now' name True =
        Inr (foldl (\<lambda>s (n, d). add_category s n d) (soundcat_init rate built) cats, [])"
  using assms by (simp add: play_suppressed_real)

theorem first_play_after_construction_witness:
  "mono (to_double example_surroundings)
   \<and> (1 / 8 :: real) \<noteq> 0 \<and> (105::real) - 100 \<le> 1 / (1 / 8)
   \<and> last_play_time (soundcat_init (1 / 8) 100) = 100
   \<and> play example_surroundings
        (add_category (soundcat_init (1 / 8) 100) ''Hello'' ''/snd/hello'')
        0 105 105 ''Hello'' True =
      Inr (add_category (soundcat_init (1 / 8) 100) ''Hello'' ''/snd/hello'', [])"
  using first_play_after_construction
          [where env = example_surroundings and rate = "1 / 8" and built = 100 and now = 105
             and now' = 105 and cats = "[(''Hello'', ''/snd/hello'')]" and rnd = 0
             and name = "''Hello''"]
        mono_example_surroundings
  by simp

end
